theory Spec2Isabelle
  imports Complex_Main "HOL-Library.Log_Nat"
begin

section \<open>Numbers\<close>

text \<open>
  A JavaScript Number is an IEEE 754 binary64 value: a finite value, which is a rational
  number, one of the two infinities, or NaN. The two zeros are one value here: they are
  equal under every comparison, both are falsy, and they differ only as divisors, while
  every division of the sources below is guarded against a zero divisor.
\<close>

datatype number = Fin rat | PInf | NInf | NaN

text \<open>
  \<open>expo x\<close> is the binary exponent of a non-zero rational: the \<open>e\<close> with
  \<open>2^e \<le> |x| < 2^(e+1)\<close>, found from the bit lengths of numerator and denominator.
\<close>

definition expo :: "rat \<Rightarrow> int" where
  "expo x = (let (a, b) = quotient_of \<bar>x\<bar>; e0 = bitlen a - bitlen b
             in if 2 powi e0 \<le> \<bar>x\<bar> then e0 else e0 - 1)"

definition round_half_even :: "rat \<Rightarrow> int" where
  "round_half_even r =
     (let f = \<lfloor>r\<rfloor>; d = r - of_int f
      in if d < 1 / 2 then f else if 1 / 2 < d then f + 1 else if even f then f else f + 1)"

text \<open>
  Every arithmetic operation of binary64 gives the exact result rounded to the nearest
  representable value, a tie to the one with an even significand: 53 bits of significand,
  the spacing of the subnormal values below \<open>2^-1022\<close>, an infinity once the rounded
  magnitude reaches \<open>2^1024\<close>. A decimal literal of the source is rounded the same way.
\<close>

definition to_binary64 :: "rat \<Rightarrow> number" where
  "to_binary64 x =
     (if x = 0 then Fin 0
      else let q = 2 powi (max (expo x) (- 1022) - 52);
               y = of_int (round_half_even (x / q)) * q
           in if 2 powi 1024 \<le> \<bar>y\<bar> then (if 0 < x then PInf else NInf) else Fin y)"

fun js_neg :: "number \<Rightarrow> number" where
  "js_neg (Fin a) = Fin (- a)"
| "js_neg PInf = NInf"
| "js_neg NInf = PInf"
| "js_neg NaN = NaN"

fun js_add :: "number \<Rightarrow> number \<Rightarrow> number" where
  "js_add (Fin a) (Fin b) = to_binary64 (a + b)"
| "js_add NaN y = NaN"
| "js_add x NaN = NaN"
| "js_add PInf NInf = NaN"
| "js_add NInf PInf = NaN"
| "js_add PInf y = PInf"
| "js_add NInf y = NInf"
| "js_add (Fin a) y = y"

definition js_sub :: "number \<Rightarrow> number \<Rightarrow> number" where
  "js_sub x y = js_add x (js_neg y)"

fun sign_of :: "number \<Rightarrow> int" where
  "sign_of (Fin a) = (if 0 < a then 1 else if a < 0 then - 1 else 0)"
| "sign_of PInf = 1"
| "sign_of NInf = - 1"
| "sign_of NaN = 0"

fun js_mul :: "number \<Rightarrow> number \<Rightarrow> number" where
  "js_mul (Fin a) (Fin b) = to_binary64 (a * b)"
| "js_mul x y =
     (if sign_of x * sign_of y = 0 then NaN
      else if 0 < sign_of x * sign_of y then PInf else NInf)"

fun js_div :: "number \<Rightarrow> number \<Rightarrow> number" where
  "js_div (Fin a) (Fin b) =
     (if b = 0 then (if a = 0 then NaN else if 0 < a then PInf else NInf)
      else to_binary64 (a / b))"
| "js_div NaN y = NaN"
| "js_div x NaN = NaN"
| "js_div (Fin a) y = Fin 0"
| "js_div x (Fin b) = (if (0 \<le> b) = (x = PInf) then PInf else NInf)"
| "js_div x y = NaN"

fun js_lt :: "number \<Rightarrow> number \<Rightarrow> bool" where
  "js_lt (Fin a) (Fin b) = (a < b)"
| "js_lt NaN y = False"
| "js_lt x NaN = False"
| "js_lt PInf y = False"
| "js_lt x NInf = False"
| "js_lt x y = True"

definition js_gt :: "number \<Rightarrow> number \<Rightarrow> bool" where
  "js_gt x y = js_lt y x"

definition js_le :: "number \<Rightarrow> number \<Rightarrow> bool" where
  "js_le x y = (x \<noteq> NaN \<and> y \<noteq> NaN \<and> (x = y \<or> js_lt x y))"

definition js_ge :: "number \<Rightarrow> number \<Rightarrow> bool" where
  "js_ge x y = js_le y x"

text \<open>
  \<open>Math.ceil\<close> is the least integer not below its argument and \<open>Math.round\<close> the
  nearest integer, a tie towards plus infinity; both are exact, and leave an infinity or
  NaN as it is. \<open>Math.min\<close> is NaN when an argument is.
\<close>

fun js_ceil :: "number \<Rightarrow> number" where
  "js_ceil (Fin a) = Fin (of_int \<lceil>a\<rceil>)"
| "js_ceil x = x"

fun js_round :: "number \<Rightarrow> number" where
  "js_round (Fin a) = Fin (of_int \<lfloor>a + 1 / 2\<rfloor>)"
| "js_round x = x"

definition js_min :: "number \<Rightarrow> number \<Rightarrow> number" where
  "js_min x y = (if x = NaN \<or> y = NaN then NaN else if js_lt y x then y else x)"

text \<open>Truthiness of a Number, and of a Number that may be absent.\<close>

fun truthy :: "number \<Rightarrow> bool" where
  "truthy (Fin a) = (a \<noteq> 0)"
| "truthy NaN = False"
| "truthy x = True"

fun truthy_opt :: "number option \<Rightarrow> bool" where
  "truthy_opt None = False"
| "truthy_opt (Some x) = truthy x"

section \<open>Route model\<close>

datatype traffic = Low | Medium | High

record route =
  distanceKm :: number
  trafficLevel :: traffic
  baseTimeMin :: number

text \<open>The virtual \<open>allowedDeliveryTime\<close>: \<open>this.baseTimeMin + 10\<close>.\<close>

definition allowedDeliveryTime :: "route \<Rightarrow> number" where
  "allowedDeliveryTime r = js_add (baseTimeMin r) (Fin 10)"

text \<open>
  The object literal \<open>trafficMultiplier\<close> of \<open>calculateDeliveryTime\<close>, with the
  literals \<open>1.0\<close>, \<open>1.1\<close> and \<open>1.2\<close>.
\<close>

fun trafficMultiplier :: "traffic \<Rightarrow> number" where
  "trafficMultiplier Low = Fin 1"
| "trafficMultiplier Medium = to_binary64 (11 / 10)"
| "trafficMultiplier High = to_binary64 (12 / 10)"

definition calculateDeliveryTime :: "route \<Rightarrow> bool \<Rightarrow> number" where
  "calculateDeliveryTime r driverFatigued =
     (let deliveryTime = baseTimeMin r;
          deliveryTime = (if driverFatigued
                          then js_ceil (js_mul deliveryTime (to_binary64 (13 / 10)))
                          else deliveryTime);
          deliveryTime = js_ceil (js_mul deliveryTime (trafficMultiplier (trafficLevel r)))
      in deliveryTime)"

definition isDeliveryOnTime :: "route \<Rightarrow> number \<Rightarrow> bool \<Rightarrow> bool" where
  "isDeliveryOnTime r actualDeliveryTimeMin driverFatigued =
     (let expectedTime = calculateDeliveryTime r driverFatigued;
          allowedTime = js_add expectedTime (Fin 10)
      in js_le actualDeliveryTimeMin allowedTime)"

section \<open>Order model\<close>

record order =
  valueRs :: number
  isOnTime :: "bool option"
  penalty :: number
  bonus :: number
  fuelCost :: number
  profit :: number




section \<open>Driver model\<close>

datatype fatigue = Normal | Tired | Exhausted

datatype error = ValidationError string

text \<open>
  The hours of the past week are finite Numbers that are only compared, never computed
  with; the counters and the efficiency are Numbers.
\<close>

record driver =
  pastWeekHours :: "rat list"
  efficiency :: number
  totalDeliveries :: number
  onTimeDeliveries :: number
  fatigueLevel :: fatigue

text \<open>
  The validator of \<open>pastWeekHours\<close>:
  \<open>hours.length === 7 && hours.every(h => h >= 0 && h <= 24)\<close>.
\<close>

definition pastWeekHours_validator :: "rat list \<Rightarrow> bool" where
  "pastWeekHours_validator hours = (length hours = 7 \<and> list_all (\<lambda>h. 0 \<le> h \<and> h \<le> 24) hours)"

text \<open>
  \<open>save()\<close> runs the validators of the schema and rejects with a validation error
  when one fails. These are the validators of the fields above, in the order of the
  schema: the week, \<open>min\<close> 0 and \<open>max\<close> 100 of efficiency, \<open>min\<close> 0 of each
  counter. The error carries the message of the first that fails.
\<close>

definition driver_save :: "driver \<Rightarrow> error + driver" where
  "driver_save this =
     (if \<not> pastWeekHours_validator (pastWeekHours this)
      then Inl (ValidationError
             ''Past week hours must contain exactly 7 values, each between 0-24'')
      else if \<not> js_ge (efficiency this) (Fin 0)
      then Inl (ValidationError ''Efficiency cannot be negative'')
      else if \<not> js_le (efficiency this) (Fin 100)
      then Inl (ValidationError ''Efficiency cannot exceed 100%'')
      else if \<not> js_ge (totalDeliveries this) (Fin 0)
      then Inl (ValidationError ''Total deliveries cannot be negative'')
      else if \<not> js_ge (onTimeDeliveries this) (Fin 0)
      then Inl (ValidationError ''On-time deliveries cannot be negative'')
      else Inr this)"

text \<open>
  \<open>Array.prototype.shift\<close> removes the first element and leaves an empty array as it
  is; \<open>push\<close> appends at the end.
\<close>

fun js_shift :: "'a list \<Rightarrow> 'a list" where
  "js_shift [] = []"
| "js_shift (x # xs) = xs"

definition js_push :: "'a list \<Rightarrow> 'a \<Rightarrow> 'a list" where
  "js_push xs x = xs @ [x]"

text \<open>
  \<open>updateDeliveryStats(wasOnTime)\<close> changes the driver in memory and returns
  \<open>this.save()\<close>: the model gives the driver as changed and the outcome of the save.
\<close>

definition updateDeliveryStats :: "driver \<Rightarrow> bool \<Rightarrow> driver \<times> (error + driver)" where
  "updateDeliveryStats this wasOnTime =
     (let this = this\<lparr>totalDeliveries := js_add (totalDeliveries this) (Fin 1)\<rparr>;
          this = (if wasOnTime
                  then this\<lparr>onTimeDeliveries := js_add (onTimeDeliveries this) (Fin 1)\<rparr>
                  else this);
          this = this\<lparr>efficiency :=
             (if js_gt (totalDeliveries this) (Fin 0)
              then js_round (js_mul (js_div (onTimeDeliveries this) (totalDeliveries this)) (Fin 100))
              else Fin 100)\<rparr>
      in (this, driver_save this))"

text \<open>\<open>updateDailyHours(hoursWorked)\<close>.\<close>

definition updateDailyHours :: "driver \<Rightarrow> rat \<Rightarrow> driver" where
  "updateDailyHours this hoursWorked =
     (let this = this\<lparr>pastWeekHours := js_shift (pastWeekHours this)\<rparr>;
          this = this\<lparr>pastWeekHours := js_push (pastWeekHours this) hoursWorked\<rparr>;
          overworkDays = length (filter (\<lambda>h. h > 8) (pastWeekHours this))
      in if overworkDays \<ge> 3 then this\<lparr>fatigueLevel := Exhausted\<rparr>
         else if overworkDays \<ge> 1 then this\<lparr>fatigueLevel := Tired\<rparr>
         else this\<lparr>fatigueLevel := Normal\<rparr>)"

section \<open>Simulation model\<close>

text \<open>
  The fields of \<open>inputs\<close> and \<open>results\<close> that the pre-save hook and
  \<open>calculateROI\<close> read or write. \<open>driverUtilization\<close> has no default and is not
  required: it may be absent (\<open>None\<close>).
\<close>

record simulation =
  availableDrivers :: number
  totalProfit :: number
  efficiencyScore :: number
  onTimeCount :: number
  lateCount :: number
  totalOrders :: number
  fuelCostBreakdown_total :: number
  penalties :: number
  driverUtilization :: "number option"

definition calculateROI :: "simulation \<Rightarrow> number" where
  "calculateROI this =
     (let totalCosts = js_add (fuelCostBreakdown_total this) (penalties this);
          totalRevenue = js_add (totalProfit this) totalCosts
      in if js_gt totalCosts (Fin 0)
         then js_round (js_mul (js_div (js_sub totalRevenue totalCosts) totalCosts) (Fin 100))
         else Fin 0)"

text \<open>
  The hook \<open>pre('save')\<close>; \<open>modified\<close> is the outcome of
  \<open>this.isModified('results')\<close>.
\<close>

definition pre_save :: "bool \<Rightarrow> simulation \<Rightarrow> simulation" where
  "pre_save modified this =
     (if modified then
        (let this =
               (if \<not> truthy_opt (driverUtilization this) \<and> truthy (availableDrivers this)
                then (let ordersPerDriver = js_div (totalOrders this) (availableDrivers this)
                      in this\<lparr>driverUtilization :=
                           Some (js_min (Fin 100) (js_round (js_mul ordersPerDriver (Fin 10))))\<rparr>)
                else this)
         in if js_gt (totalOrders this) (Fin 0)
            then this\<lparr>efficiencyScore :=
                   js_round (js_mul (js_div (onTimeCount this) (totalOrders this)) (Fin 100))\<rparr>
            else this)
      else this)"

section \<open>Time strings\<close>

text \<open>
  The regular expressions of the schemas use character classes, literal characters, an
  optional item, concatenation and alternation. \<open>rx_rests r s\<close> lists what is left of
  \<open>s\<close> after each way \<open>r\<close> can match at its start, so a pattern between \<open>^\<close> and
  \<open>$\<close> matches \<open>s\<close> when nothing is left.
\<close>

datatype rx = Chr char | Rng char char | Opt rx | Cat rx rx | Alt rx rx

fun rx_rests :: "rx \<Rightarrow> string \<Rightarrow> string list" where
  "rx_rests (Chr c) s = (case s of [] \<Rightarrow> [] | x # xs \<Rightarrow> if x = c then [xs] else [])"
| "rx_rests (Rng lo hi) s =
     (case s of [] \<Rightarrow> []
      | x # xs \<Rightarrow> if (of_char lo :: nat) \<le> of_char x \<and> (of_char x :: nat) \<le> of_char hi
                  then [xs] else [])"
| "rx_rests (Opt r) s = rx_rests r s @ [s]"
| "rx_rests (Cat r1 r2) s = concat (map (rx_rests r2) (rx_rests r1 s))"
| "rx_rests (Alt r1 r2) s = rx_rests r1 s @ rx_rests r2 s"

definition rx_test_anchored :: "rx \<Rightarrow> string \<Rightarrow> bool" where
  "rx_test_anchored r s = ([] \<in> set (rx_rests r s))"

text \<open>\<open>/^([0-1]?[0-9]|2[0-3]):[0-5][0-9]$/\<close>\<close>

definition time_rx :: rx where
  "time_rx =
     Cat (Alt (Cat (Opt (Rng CHR ''0'' CHR ''1'')) (Rng CHR ''0'' CHR ''9''))
              (Cat (Chr CHR ''2'') (Rng CHR ''0'' CHR ''3'')))
         (Cat (Chr CHR '':'')
              (Cat (Rng CHR ''0'' CHR ''5'') (Rng CHR ''0'' CHR ''9'')))"

text \<open>
  The fields \<open>deliveryTime\<close> of an order and \<open>inputs.routeStartTime\<close> of a run are
  required strings with a \<open>match\<close> on this pattern. A required string must not be
  empty; a validator that fails gives a validation error with the field's message.
\<close>

definition validate_deliveryTime :: "string \<Rightarrow> error + string" where
  "validate_deliveryTime s =
     (if s = [] then Inl (ValidationError ''Delivery time is required'')
      else if rx_test_anchored time_rx s then Inr s
      else Inl (ValidationError ''Delivery time must be in HH:MM format''))"

definition validate_routeStartTime :: "string \<Rightarrow> error + string" where
  "validate_routeStartTime s =
     (if s = [] then Inl (ValidationError ''Route start time is required'')
      else if rx_test_anchored time_rx s then Inr s
      else Inl (ValidationError ''Start time must be in HH:MM format''))"

text \<open>
  The shape named by the specification: two digits of hours from 00 to 23, a colon, two
  digits of minutes from 00 to 59.
\<close>

definition digit_upto :: "char \<Rightarrow> char \<Rightarrow> bool" where
  "digit_upto hi c = ((of_char CHR ''0'' :: nat) \<le> of_char c \<and> (of_char c :: nat) \<le> of_char hi)"

definition minutes_00_59 :: "char \<Rightarrow> char \<Rightarrow> bool" where
  "minutes_00_59 m1 m2 = (digit_upto CHR ''5'' m1 \<and> digit_upto CHR ''9'' m2)"

definition hours_00_23 :: "char \<Rightarrow> char \<Rightarrow> bool" where
  "hours_00_23 h1 h2 =
     (digit_upto CHR ''1'' h1 \<and> digit_upto CHR ''9'' h2
      \<or> h1 = CHR ''2'' \<and> digit_upto CHR ''3'' h2)"

fun spec_HH_MM :: "string \<Rightarrow> bool" where
  "spec_HH_MM [h1, h2, c, m1, m2] = (hours_00_23 h1 h2 \<and> c = CHR '':'' \<and> minutes_00_59 m1 m2)"
| "spec_HH_MM _ = False"

text \<open>The further shape the pattern admits: one digit of hours.\<close>

fun short_H_MM :: "string \<Rightarrow> bool" where
  "short_H_MM [h, c, m1, m2] = (digit_upto CHR ''9'' h \<and> c = CHR '':'' \<and> minutes_00_59 m1 m2)"
| "short_H_MM _ = False"

section \<open>Properties of the rounding\<close>

lemma pow2_less_iff: "(2::rat) powi m < 2 powi n \<longleftrightarrow> m < n"
proof
  assume lt: "(2::rat) powi m < 2 powi n"
  show "m < n"
  proof (rule ccontr)
    assume "\<not> m < n"
    then have "n \<le> m" by simp
    then have "(2::rat) powi n \<le> 2 powi m"
      by (rule power_int_increasing) simp
    with lt show False by simp
  qed
next
  assume "m < n"
  then show "(2::rat) powi m < 2 powi n"
    by (rule power_int_strict_increasing) simp
qed

lemma pow2_le_iff: "(2::rat) powi m \<le> 2 powi n \<longleftrightarrow> m \<le> n"
  using pow2_less_iff [of n m] by (simp add: not_less [symmetric])

lemma bitlen_rat_bounds:
  assumes "0 < a"
  shows "(2::rat) powi (bitlen a - 1) \<le> of_int a" and "of_int a < (2::rat) powi bitlen a"
proof -
  have pos: "1 \<le> bitlen a"
    using assms bitlen_eq_zero_iff [of a] bitlen_nonneg [of a] by force
  from bitlen_bounds [OF assms]
  have lo: "2 ^ nat (bitlen a - 1) \<le> a" and hi: "a < 2 ^ nat (bitlen a)"
    by simp_all
  have "(2::rat) powi (bitlen a - 1) = 2 ^ nat (bitlen a - 1)"
    using pos by (simp add: power_int_nonneg_exp)
  also have "\<dots> = of_int (2 ^ nat (bitlen a - 1))"
    by simp
  also have "\<dots> \<le> of_int a"
    using lo by (simp only: of_int_le_iff)
  finally show "(2::rat) powi (bitlen a - 1) \<le> of_int a" .
  have "(of_int a :: rat) < of_int (2 ^ nat (bitlen a))"
    using hi by (simp only: of_int_less_iff)
  also have "\<dots> = 2 ^ nat (bitlen a)"
    by simp
  also have "\<dots> = (2::rat) powi bitlen a"
    using pos by (simp add: power_int_nonneg_exp)
  finally show "of_int a < (2::rat) powi bitlen a" .
qed

lemma expo_bounds:
  assumes "x \<noteq> 0"
  shows "2 powi expo x \<le> \<bar>x\<bar>" and "\<bar>x\<bar> < 2 powi (expo x + 1)"
proof -
  obtain a b where q: "quotient_of \<bar>x\<bar> = (a, b)"
    by (cases "quotient_of \<bar>x\<bar>")
  have b: "0 < b"
    using quotient_of_denom_pos [OF q] .
  have x: "\<bar>x\<bar> = of_int a / of_int b"
    using quotient_of_div [OF q] .
  have "0 < \<bar>x\<bar>"
    using assms by simp
  then have a: "0 < a"
    using b by (simp add: x zero_less_divide_iff)
  define e0 where "e0 = bitlen a - bitlen b"
  have ra: "(0::rat) < of_int a" and rb: "(0::rat) < of_int b"
    using a b by simp_all
  have "(2::rat) powi (e0 - 1) = 2 powi (bitlen a - 1) / 2 powi bitlen b"
    unfolding e0_def by (simp add: power_int_diff [symmetric] algebra_simps)
  also have "\<dots> \<le> of_int a / 2 powi bitlen b"
    using bitlen_rat_bounds(1) [OF a] by (simp add: divide_right_mono)
  also have "\<dots> < of_int a / of_int b"
    using bitlen_rat_bounds(2) [OF b] ra rb by (simp add: divide_strict_left_mono)
  finally have lower: "(2::rat) powi (e0 - 1) < \<bar>x\<bar>"
    by (simp add: x)
  have "of_int a / of_int b < (2::rat) powi bitlen a / of_int b"
    using bitlen_rat_bounds(2) [OF a] rb by (simp add: divide_strict_right_mono)
  also have "\<dots> \<le> 2 powi bitlen a / 2 powi (bitlen b - 1)"
    using bitlen_rat_bounds(1) [OF b] rb by (simp add: divide_left_mono)
  also have "\<dots> = 2 powi (e0 + 1)"
    unfolding e0_def by (simp add: power_int_diff [symmetric] algebra_simps)
  finally have upper: "\<bar>x\<bar> < (2::rat) powi (e0 + 1)"
    by (simp add: x)
  have ex: "expo x = (if 2 powi e0 \<le> \<bar>x\<bar> then e0 else e0 - 1)"
    by (simp add: expo_def q e0_def Let_def)
  show "2 powi expo x \<le> \<bar>x\<bar>"
    using lower by (simp add: ex)
  show "\<bar>x\<bar> < 2 powi (expo x + 1)"
    using upper by (simp add: ex not_le)
qed

lemma expo_unique:
  assumes "2 powi e \<le> \<bar>x\<bar>" and "\<bar>x\<bar> < 2 powi (e + 1)"
  shows "expo x = e"
proof -
  have nz: "x \<noteq> 0"
  proof
    assume "x = 0"
    with assms(1) have "(2::rat) powi e \<le> 0"
      by simp
    moreover have "\<not> (2::rat) powi e \<le> 0"
      by (simp add: not_le)
    ultimately show False
      by contradiction
  qed
  have "(2::rat) powi expo x < 2 powi (e + 1)"
    using expo_bounds(1) [OF nz] assms(2) by (rule le_less_trans)
  then have one: "expo x < e + 1"
    by (simp only: pow2_less_iff)
  have "(2::rat) powi e < 2 powi (expo x + 1)"
    using assms(1) expo_bounds(2) [OF nz] by (rule le_less_trans)
  then have two: "e < expo x + 1"
    by (simp only: pow2_less_iff)
  from one two show ?thesis
    by simp
qed

lemma round_half_even_of_int: "round_half_even (of_int n) = n"
  by (simp add: round_half_even_def)

lemma round_half_even_le:
  assumes "r \<le> of_int N"
  shows "round_half_even r \<le> N"
proof (cases "\<lfloor>r\<rfloor> < N")
  case True
  then show ?thesis
    by (simp add: round_half_even_def Let_def)
next
  case False
  moreover have "\<lfloor>r\<rfloor> \<le> N"
    using assms by (simp add: floor_le_iff)
  ultimately have f: "\<lfloor>r\<rfloor> = N"
    by simp
  then have "of_int N \<le> r"
    using of_int_floor_le [of r] by simp
  with assms have "r = of_int N"
    by simp
  then show ?thesis
    by (simp add: round_half_even_of_int)
qed

lemma round_half_even_ge:
  assumes "of_int N \<le> r"
  shows "N \<le> round_half_even r"
proof -
  have "N \<le> \<lfloor>r\<rfloor>"
    using assms by (simp add: le_floor_iff)
  then show ?thesis
    by (simp add: round_half_even_def Let_def)
qed

text \<open>The grid on which a value of exponent at most 52 is rounded contains the integers.\<close>

lemma to_binary64_grid:
  assumes "0 < x" and "x \<le> of_nat B" and "B < 2 ^ 53"
  shows "\<exists>y. to_binary64 x = Fin y \<and> 0 \<le> y \<and> y \<le> of_nat B"
proof -
  have nz: "x \<noteq> 0"
    using assms(1) by simp
  define e where "e = max (expo x) (- 1022)"
  define q :: rat where "q = 2 powi (e - 52)"
  define m where "m = round_half_even (x / q)"
  have qpos: "0 < q"
    by (simp add: q_def)
  have "(2::rat) powi expo x \<le> x"
    using expo_bounds(1) [OF nz] assms(1) by simp
  also have "x \<le> of_nat B"
    by (rule assms(2))
  also have "(of_nat B :: rat) < of_nat (2 ^ 53)"
    using assms(3) by (simp only: of_nat_less_iff)
  also have "(of_nat (2 ^ 53) :: rat) = 2 powi 53"
    by simp
  finally have "expo x < 53"
    by (simp only: pow2_less_iff)
  then have e52: "e \<le> 52"
    by (simp add: e_def)
  define j where "j = nat (52 - e)"
  have q_inv: "q = 1 / 2 ^ j"
    using e52 by (simp add: q_def j_def power_int_def field_simps nat_diff_distrib')
  have grid: "(of_nat B :: rat) / q = of_int (int B * 2 ^ j)"
    by (simp add: q_inv)
  have "x / q \<le> of_nat B / q"
    using assms(2) qpos by (simp add: divide_right_mono)
  then have "x / q \<le> of_int (int B * 2 ^ j)"
    by (simp only: grid)
  then have m_le: "m \<le> int B * 2 ^ j"
    unfolding m_def by (rule round_half_even_le)
  have "of_int 0 \<le> x / q"
    using assms(1) qpos by simp
  then have m_ge: "0 \<le> m"
    unfolding m_def by (rule round_half_even_ge)
  define y where "y = of_int m * q"
  have y0: "0 \<le> y"
    using m_ge qpos by (simp add: y_def)
  have "y \<le> of_int (int B * 2 ^ j) * q"
    unfolding y_def using m_le qpos by (simp only: mult_le_cancel_right_pos of_int_le_iff)
  also have "\<dots> = of_nat B"
    by (simp add: q_inv)
  finally have yB: "y \<le> of_nat B" .
  have "y < of_nat (2 ^ 53)"
    using yB assms(3) by (meson le_less_trans of_nat_less_iff)
  also have "(of_nat (2 ^ 53) :: rat) = 2 powi 53"
    by simp
  also have "(2::rat) powi 53 \<le> 2 powi 1024"
    by (simp only: pow2_le_iff)
  finally have "\<not> 2 powi 1024 \<le> \<bar>y\<bar>"
    using y0 by simp
  then have "to_binary64 x = Fin y"
    using nz by (simp add: to_binary64_def Let_def e_def [symmetric] q_def [symmetric]
        m_def [symmetric] y_def [symmetric])
  with y0 yB show ?thesis
    by blast
qed

lemma to_binary64_range:
  assumes "0 \<le> x" and "x \<le> of_nat B" and "B < 2 ^ 53"
  shows "\<exists>y. to_binary64 x = Fin y \<and> 0 \<le> y \<and> y \<le> of_nat B"
proof (cases "x = 0")
  case True
  then show ?thesis
    by (simp add: to_binary64_def)
next
  case False
  with assms(1) have "0 < x"
    by simp
  then show ?thesis
    using assms(2,3) by (rule to_binary64_grid)
qed

lemma to_binary64_of_nat:
  assumes "k < 2 ^ 53"
  shows "to_binary64 (of_nat k) = Fin (of_nat k)"
proof (cases "k = 0")
  case True
  then show ?thesis
    by (simp add: to_binary64_def)
next
  case False
  define x :: rat where "x = of_nat k"
  have xpos: "0 < x"
    using False by (simp add: x_def)
  then have nz: "x \<noteq> 0"
    by simp
  define e where "e = max (expo x) (- 1022)"
  define q :: rat where "q = 2 powi (e - 52)"
  have "(2::rat) powi expo x \<le> x"
    using expo_bounds(1) [OF nz] xpos by simp
  also have "x < of_nat (2 ^ 53)"
    unfolding x_def using assms by (simp only: of_nat_less_iff)
  also have "(of_nat (2 ^ 53) :: rat) = 2 powi 53"
    by simp
  finally have "expo x < 53"
    by (simp only: pow2_less_iff)
  then have e52: "e \<le> 52"
    by (simp add: e_def)
  define j where "j = nat (52 - e)"
  have q_inv: "q = 1 / 2 ^ j"
    using e52 by (simp add: q_def j_def power_int_def field_simps nat_diff_distrib')
  have "x / q = of_int (int k * 2 ^ j)"
    by (simp add: q_inv x_def)
  then have m: "round_half_even (x / q) = int k * 2 ^ j"
    by (simp only: round_half_even_of_int)
  have "of_int (round_half_even (x / q)) * q = of_int (int k * 2 ^ j) * q"
    by (simp only: m)
  also have "\<dots> = x"
    by (simp add: q_inv x_def)
  finally have y: "of_int (round_half_even (x / q)) * q = x" .
  have "x < 2 powi 53"
    unfolding x_def using assms
    by (metis of_nat_less_iff of_nat_numeral of_nat_power power_int_numeral)
  also have "(2::rat) powi 53 \<le> 2 powi 1024"
    by (simp only: pow2_le_iff)
  finally have "\<not> 2 powi 1024 \<le> \<bar>x\<bar>"
    using xpos by simp
  then have "to_binary64 x = Fin x"
    using nz by (simp add: to_binary64_def Let_def e_def [symmetric] q_def [symmetric] y)
  then show ?thesis
    by (simp only: x_def)
qed

text \<open>
  One rounding in the normal range, from the exponent: the simplifier evaluates the
  premises and the significand on a literal.
\<close>

lemma to_binary64_normal:
  assumes "2 powi e \<le> \<bar>x\<bar>" and "\<bar>x\<bar> < 2 powi (e + 1)"
    and "- 1022 \<le> e" and "e \<le> 1000"
    and "\<bar>of_int (round_half_even (x / 2 powi (e - 52))) * (2::rat) powi (e - 52)\<bar> < 2 powi (e + 2)"
  shows "to_binary64 x = Fin (of_int (round_half_even (x / 2 powi (e - 52))) * 2 powi (e - 52))"
proof -
  have ex: "expo x = e"
    using assms(1,2) by (rule expo_unique)
  have nz: "x \<noteq> 0"
  proof
    assume "x = 0"
    with assms(1) have "(2::rat) powi e \<le> 0"
      by simp
    moreover have "\<not> (2::rat) powi e \<le> 0"
      by (simp add: not_le)
    ultimately show False
      by contradiction
  qed
  have "(2::rat) powi (e + 2) \<le> 2 powi 1024"
    using assms(4) by (simp only: pow2_le_iff)
  with assms(5)
  have "\<bar>of_int (round_half_even (x / 2 powi (e - 52))) * (2::rat) powi (e - 52)\<bar> < 2 powi 1024"
    by (rule less_le_trans)
  then have "\<not> 2 powi 1024 \<le> \<bar>of_int (round_half_even (x / 2 powi (e - 52))) * (2::rat) powi (e - 52)\<bar>"
    by (simp only: not_le)
  then show ?thesis
    using nz assms(3) by (simp add: to_binary64_def Let_def ex max_def)
qed

lemma floor_rat_numeral [simp]:
  "\<lfloor>(numeral a :: rat) / numeral b\<rfloor> = numeral a div numeral b"
  using floor_divide_of_int_eq [of "numeral a" "numeral b", where ?'a = rat] by simp

lemma floor_rat_one_numeral [simp]:
  "\<lfloor>(1 :: rat) / numeral b\<rfloor> = 1 div numeral b"
  using floor_divide_of_int_eq [of 1 "numeral b", where ?'a = rat] by simp

lemma ceiling_rat_numeral [simp]:
  "\<lceil>(numeral a :: rat) / numeral b\<rceil> = - (- numeral a div numeral b)"
proof -
  have "\<lceil>(of_int (numeral a) :: rat) / of_int (numeral b)\<rceil>
        = - \<lfloor>(of_int (- numeral a) :: rat) / of_int (numeral b)\<rfloor>"
    by (simp add: ceiling_def)
  also have "\<dots> = - (- numeral a div numeral b)"
    by (simp only: floor_divide_of_int_eq)
  finally show ?thesis by simp
qed

lemma to_binary64_zero [simp]: "to_binary64 0 = Fin 0"
  by (simp add: to_binary64_def)

lemma to_binary64_one [simp]: "to_binary64 1 = Fin 1"
  using to_binary64_of_nat [of 1] by simp

lemma to_binary64_numeral [simp]:
  "(numeral n :: nat) < 2 ^ 53 \<Longrightarrow> to_binary64 (numeral n) = Fin (numeral n)"
  using to_binary64_of_nat [of "numeral n"] by simp

text \<open>The decimal literals of the sources, as the Numbers they denote.\<close>

lemma binary64_literals:
  "to_binary64 (1 / 10) = Fin (3602879701896397 / 36028797018963968)"
  "to_binary64 (11 / 10) = Fin (2476979795053773 / 2251799813685248)"
  "to_binary64 (12 / 10) = Fin (5404319552844595 / 4503599627370496)"
  "to_binary64 (13 / 10) = Fin (5854679515581645 / 4503599627370496)"
  using to_binary64_normal [of "- 4" "1 / 10"] to_binary64_normal [of "0" "11 / 10"]
        to_binary64_normal [of "0" "6 / 5"] to_binary64_normal [of "0" "13 / 10"]
  by (simp_all add: round_half_even_def Let_def)

section \<open>Cases of the operations\<close>

lemma truthy_iff: "truthy x \<longleftrightarrow> x \<noteq> Fin 0 \<and> x \<noteq> NaN"
  by (cases x) simp_all

lemma truthy_opt_iff:
  "truthy_opt u \<longleftrightarrow> u \<noteq> None \<and> u \<noteq> Some (Fin 0) \<and> u \<noteq> Some NaN"
  by (cases u) (simp_all add: truthy_iff)

lemma js_le_Fin [simp]: "js_le (Fin a) (Fin b) \<longleftrightarrow> a \<le> b"
  by (auto simp add: js_le_def)

lemma js_ge_Fin [simp]: "js_ge (Fin a) (Fin b) \<longleftrightarrow> b \<le> a"
  by (simp add: js_ge_def)

lemma js_gt_Fin [simp]: "js_gt (Fin a) (Fin b) \<longleftrightarrow> b < a"
  by (simp add: js_gt_def)

lemma js_div_zero_not_finite: "js_div x (Fin 0) \<noteq> Fin y"
  by (cases x) simp_all

lemma js_mul_not_finite: "\<forall>a. x \<noteq> Fin a \<Longrightarrow> js_mul x y \<noteq> Fin b"
  by (cases x; cases y) simp_all

lemma js_round_not_finite: "\<forall>a. x \<noteq> Fin a \<Longrightarrow> js_round x \<noteq> Fin b"
  by (cases x) simp_all

lemma js_min_100: "js_min (Fin 100) x = NaN \<or> js_le (js_min (Fin 100) x) (Fin 100)"
  by (cases x) (simp_all add: js_min_def js_le_def)

section \<open>Delivery time estimate\<close>



section \<open>On-time judgement\<close>

lemma estimate_60_Medium:
  "calculateDeliveryTime \<lparr>distanceKm = Fin 10, trafficLevel = Medium, baseTimeMin = Fin 60\<rparr> False = Fin 66"
  "calculateDeliveryTime \<lparr>distanceKm = Fin 10, trafficLevel = Medium, baseTimeMin = Fin 60\<rparr> True = Fin 86"
  using to_binary64_normal [of "0" "11 / 10"]
        to_binary64_normal [of "0" "6 / 5"]
        to_binary64_normal [of "6" "37154696925806595 / 562949953421312"]
        to_binary64_normal [of "0" "13 / 10"]
        to_binary64_normal [of "6" "87820192733724675 / 1125899906842624"]
        to_binary64_normal [of "6" "96602212007097147 / 1125899906842624"]
  by (simp_all add: calculateDeliveryTime_def round_half_even_def Let_def)

text \<open>
  C3, as stated, at the accessor \<open>allowedDeliveryTime\<close>: a route with base time 60 on
  Medium traffic has an estimate of 66 minutes for a rested driver and 86 for a fatigued
  one, so estimate + 10 is 76 or 96, while the accessor gives 70.
\<close>

theorem allowedDeliveryTime_counterexample:
  "allowedDeliveryTime \<lparr>distanceKm = Fin 10, trafficLevel = Medium, baseTimeMin = Fin 60\<rparr> = Fin 70
   \<and> js_add (calculateDeliveryTime \<lparr>distanceKm = Fin 10, trafficLevel = Medium, baseTimeMin = Fin 60\<rparr> False) (Fin 10) = Fin 76
   \<and> js_add (calculateDeliveryTime \<lparr>distanceKm = Fin 10, trafficLevel = Medium, baseTimeMin = Fin 60\<rparr> True) (Fin 10) = Fin 96
   \<and> allowedDeliveryTime \<lparr>distanceKm = Fin 10, trafficLevel = Medium, baseTimeMin = Fin 60\<rparr>
       \<noteq> js_add (calculateDeliveryTime \<lparr>distanceKm = Fin 10, trafficLevel = Medium, baseTimeMin = Fin 60\<rparr> False) (Fin 10)
   \<and> allowedDeliveryTime \<lparr>distanceKm = Fin 10, trafficLevel = Medium, baseTimeMin = Fin 60\<rparr>
       \<noteq> js_add (calculateDeliveryTime \<lparr>distanceKm = Fin 10, trafficLevel = Medium, baseTimeMin = Fin 60\<rparr> True) (Fin 10)"
  by (simp add: allowedDeliveryTime_def estimate_60_Medium)

text \<open>
  C3, amended. \<open>isDeliveryOnTime\<close> judges a delivery on time exactly when its actual
  minutes are at most \<open>calculateDeliveryTime\<close> (fatigue- and traffic-adjusted) plus 10.
  The accessor \<open>allowedDeliveryTime\<close> is \<open>baseTimeMin + 10\<close>, whatever the traffic
  level and with no fatigue flag.
\<close>

theorem isDeliveryOnTime_grace:
  "(isDeliveryOnTime r actual fatigued
      \<longleftrightarrow> js_le actual (js_add (calculateDeliveryTime r fatigued) (Fin 10)))
   \<and> allowedDeliveryTime r = js_add (baseTimeMin r) (Fin 10)"
  by (simp add: isDeliveryOnTime_def allowedDeliveryTime_def Let_def)

theorem isDeliveryOnTime_grace_witness:
  "isDeliveryOnTime \<lparr>distanceKm = Fin 10, trafficLevel = Medium, baseTimeMin = Fin 60\<rparr> (Fin 96) True
   \<and> \<not> isDeliveryOnTime \<lparr>distanceKm = Fin 10, trafficLevel = Medium, baseTimeMin = Fin 60\<rparr> (Fin 97) True
   \<and> isDeliveryOnTime \<lparr>distanceKm = Fin 10, trafficLevel = Medium, baseTimeMin = Fin 60\<rparr> (Fin 76) False
   \<and> \<not> isDeliveryOnTime \<lparr>distanceKm = Fin 10, trafficLevel = Medium, baseTimeMin = Fin 60\<rparr> (Fin 77) False
   \<and> allowedDeliveryTime \<lparr>distanceKm = Fin 10, trafficLevel = Medium, baseTimeMin = Fin 60\<rparr> = Fin 70"
  using isDeliveryOnTime_grace
          [of "\<lparr>distanceKm = Fin 10, trafficLevel = Medium, baseTimeMin = Fin 60\<rparr>" "Fin 96" True]
        isDeliveryOnTime_grace
          [of "\<lparr>distanceKm = Fin 10, trafficLevel = Medium, baseTimeMin = Fin 60\<rparr>" "Fin 97" True]
        isDeliveryOnTime_grace
          [of "\<lparr>distanceKm = Fin 10, trafficLevel = Medium, baseTimeMin = Fin 60\<rparr>" "Fin 76" False]
        isDeliveryOnTime_grace
          [of "\<lparr>distanceKm = Fin 10, trafficLevel = Medium, baseTimeMin = Fin 60\<rparr>" "Fin 77" False]
  by (simp add: estimate_60_Medium)

section \<open>Profit of one order\<close>



section \<open>Fatigue tracking\<close>

lemma pastWeekHours_updateDailyHours:
  "pastWeekHours (updateDailyHours d h) = js_push (js_shift (pastWeekHours d)) h"
  by (simp add: updateDailyHours_def Let_def)

lemma length_js_shift_push:
  "length (js_push (js_shift xs) h) = (if xs = [] then 1 else length xs)"
  by (cases xs) (simp_all add: js_push_def)

text \<open>
  C4. After \<open>updateDailyHours\<close> the fatigue level follows the number of tracked days
  (the week after the oldest day is dropped and the new one appended) with more than 8
  hours: exhausted exactly when at least 3, tired exactly when 1 or 2, normal exactly
  when none.
\<close>

theorem updateDailyHours_fatigueLevel:
  "(let d' = updateDailyHours d h;
        overworkDays = length (filter (\<lambda>x. x > 8) (pastWeekHours d'))
    in pastWeekHours d' = js_shift (pastWeekHours d) @ [h]
       \<and> (fatigueLevel d' = Exhausted \<longleftrightarrow> overworkDays \<ge> 3)
       \<and> (fatigueLevel d' = Tired \<longleftrightarrow> overworkDays = 1 \<or> overworkDays = 2)
       \<and> (fatigueLevel d' = Normal \<longleftrightarrow> overworkDays = 0))"
proof -
  define n where "n = length (filter (\<lambda>x. x > 8) (pastWeekHours (updateDailyHours d h)))"
  have level: "fatigueLevel (updateDailyHours d h) =
      (if n \<ge> 3 then Exhausted else if n \<ge> 1 then Tired else Normal)"
    unfolding n_def by (simp add: updateDailyHours_def Let_def)
  have week: "pastWeekHours (updateDailyHours d h) = js_shift (pastWeekHours d) @ [h]"
    by (simp add: pastWeekHours_updateDailyHours js_push_def)
  have "(fatigueLevel (updateDailyHours d h) = Exhausted \<longleftrightarrow> n \<ge> 3)
      \<and> (fatigueLevel (updateDailyHours d h) = Tired \<longleftrightarrow> n = 1 \<or> n = 2)
      \<and> (fatigueLevel (updateDailyHours d h) = Normal \<longleftrightarrow> n = 0)"
    unfolding level by auto
  with week show ?thesis
    unfolding Let_def n_def by simp
qed

theorem updateDailyHours_fatigueLevel_witness:
  "fatigueLevel (updateDailyHours
      \<lparr>pastWeekHours = [9, 8, 10, 7, 6, 8, 9], efficiency = Fin 100, totalDeliveries = Fin 0,
       onTimeDeliveries = Fin 0, fatigueLevel = Normal\<rparr> 9) = Exhausted
   \<and> fatigueLevel (updateDailyHours
      \<lparr>pastWeekHours = [9, 8, 10, 7, 6, 8, 8], efficiency = Fin 100, totalDeliveries = Fin 0,
       onTimeDeliveries = Fin 0, fatigueLevel = Normal\<rparr> 8) = Tired
   \<and> fatigueLevel (updateDailyHours
      \<lparr>pastWeekHours = [9, 8, 8, 7, 6, 8, 8], efficiency = Fin 100, totalDeliveries = Fin 0,
       onTimeDeliveries = Fin 0, fatigueLevel = Exhausted\<rparr> 8) = Normal"
  using updateDailyHours_fatigueLevel
          [of "\<lparr>pastWeekHours = [9, 8, 10, 7, 6, 8, 9], efficiency = Fin 100, totalDeliveries = Fin 0,
                onTimeDeliveries = Fin 0, fatigueLevel = Normal\<rparr>" 9]
        updateDailyHours_fatigueLevel
          [of "\<lparr>pastWeekHours = [9, 8, 10, 7, 6, 8, 8], efficiency = Fin 100, totalDeliveries = Fin 0,
                onTimeDeliveries = Fin 0, fatigueLevel = Normal\<rparr>" 8]
        updateDailyHours_fatigueLevel
          [of "\<lparr>pastWeekHours = [9, 8, 8, 7, 6, 8, 8], efficiency = Fin 100, totalDeliveries = Fin 0,
                onTimeDeliveries = Fin 0, fatigueLevel = Exhausted\<rparr>" 8]
  by (simp add: Let_def)

text \<open>
  C9. A driver whose \<open>pastWeekHours\<close> has exactly 7 entries has exactly 7 after
  \<open>updateDailyHours\<close>: the oldest entry is dropped and \<open>hoursWorked\<close> is the newest.
  The same holds after any number of calls, and the schema's validator (7 entries, each
  between 0 and 24) still accepts the week when the hours recorded are in that range.
\<close>

theorem updateDailyHours_seven_days:
  assumes "length (pastWeekHours d) = 7"
  shows "length (pastWeekHours (updateDailyHours d h)) = 7
    \<and> pastWeekHours (updateDailyHours d h) = tl (pastWeekHours d) @ [h]
    \<and> length (pastWeekHours (foldl updateDailyHours d hs)) = 7
    \<and> (pastWeekHours_validator (pastWeekHours d) \<and> 0 \<le> h \<and> h \<le> 24 \<longrightarrow>
         pastWeekHours_validator (pastWeekHours (updateDailyHours d h)))"
proof -
  obtain x xs where week: "pastWeekHours d = x # xs"
    using assms by (cases "pastWeekHours d") auto
  have step: "length (pastWeekHours (updateDailyHours e k)) = 7"
    if "length (pastWeekHours e) = 7" for e k
    using that by (auto simp add: pastWeekHours_updateDailyHours length_js_shift_push)
  have many: "length (pastWeekHours (foldl updateDailyHours e hs)) = 7"
    if "length (pastWeekHours e) = 7" for e
    using that by (induction hs arbitrary: e) (simp_all add: step)
  have shape: "pastWeekHours (updateDailyHours d h) = tl (pastWeekHours d) @ [h]"
    by (simp add: pastWeekHours_updateDailyHours week js_push_def)
  have valid: "pastWeekHours_validator (pastWeekHours (updateDailyHours d h))"
    if "pastWeekHours_validator (pastWeekHours d)" "0 \<le> h" "h \<le> 24"
    using that by (simp add: shape week pastWeekHours_validator_def)
  from step [OF assms] shape many [OF assms] valid show ?thesis
    by blast
qed

theorem updateDailyHours_seven_days_witness:
  "pastWeekHours (updateDailyHours
      \<lparr>pastWeekHours = [1, 2, 3, 4, 5, 6, 7], efficiency = Fin 100, totalDeliveries = Fin 0,
       onTimeDeliveries = Fin 0, fatigueLevel = Normal\<rparr> 9) = [2, 3, 4, 5, 6, 7, 9]
   \<and> length (pastWeekHours (foldl updateDailyHours
      \<lparr>pastWeekHours = [1, 2, 3, 4, 5, 6, 7], efficiency = Fin 100, totalDeliveries = Fin 0,
       onTimeDeliveries = Fin 0, fatigueLevel = Normal\<rparr> [9, 10])) = 7"
  using updateDailyHours_seven_days
          [of "\<lparr>pastWeekHours = [1, 2, 3, 4, 5, 6, 7], efficiency = Fin 100, totalDeliveries = Fin 0,
                onTimeDeliveries = Fin 0, fatigueLevel = Normal\<rparr>" 9 "[9, 10]"]
  by simp

section \<open>Delivery statistics of a driver\<close>

lemma updateDeliveryStats_fields:
  "totalDeliveries (fst (updateDeliveryStats d w)) = js_add (totalDeliveries d) (Fin 1)"
  "onTimeDeliveries (fst (updateDeliveryStats d w))
     = (if w then js_add (onTimeDeliveries d) (Fin 1) else onTimeDeliveries d)"
  "efficiency (fst (updateDeliveryStats d w)) =
     (if js_gt (js_add (totalDeliveries d) (Fin 1)) (Fin 0)
      then js_round (js_mul
             (js_div (if w then js_add (onTimeDeliveries d) (Fin 1) else onTimeDeliveries d)
                     (js_add (totalDeliveries d) (Fin 1)))
             (Fin 100))
      else Fin 100)"
  "pastWeekHours (fst (updateDeliveryStats d w)) = pastWeekHours d"
  "snd (updateDeliveryStats d w) = driver_save (fst (updateDeliveryStats d w))"
  by (simp_all add: updateDeliveryStats_def Let_def)

lemma js_add_one_nat:
  assumes "k + 1 < 2 ^ 53"
  shows "js_add (Fin (of_nat k)) (Fin 1) = Fin (of_nat (k + 1))"
proof -
  have "js_add (Fin (of_nat k)) (Fin 1) = to_binary64 (of_nat k + 1)"
    by (simp only: js_add.simps)
  also have "\<dots> = to_binary64 (of_nat (k + 1))"
    by (simp only: of_nat_add of_nat_1)
  also have "\<dots> = Fin (of_nat (k + 1))"
    by (rule to_binary64_of_nat [OF assms])
  finally show ?thesis .
qed

lemma percent_of_ratio:
  assumes "n \<le> t" and "0 < t"
  shows "\<exists>k::nat. k \<le> 100
     \<and> js_round (js_mul (js_div (Fin (of_nat n)) (Fin (of_nat t))) (Fin 100)) = Fin (of_nat k)"
proof -
  have "(0::rat) \<le> of_nat n / of_nat t" and "(of_nat n :: rat) / of_nat t \<le> of_nat 1"
    using assms by simp_all
  then obtain r where r: "to_binary64 (of_nat n / of_nat t) = Fin r" "0 \<le> r" "r \<le> 1"
    using to_binary64_range [of "of_nat n / of_nat t" 1] by auto
  have "0 \<le> r * 100" and "r * 100 \<le> of_nat 100"
    using r(2,3) by simp_all
  then obtain p where p: "to_binary64 (r * 100) = Fin p" "0 \<le> p" "p \<le> 100"
    using to_binary64_range [of "r * 100" 100] by auto
  define k where "k = nat \<lfloor>p + 1 / 2\<rfloor>"
  have lo: "0 \<le> \<lfloor>p + 1 / 2\<rfloor>"
    using p(2) by simp
  have "p + 1 / 2 < of_int 100 + 1"
    using p(3) by simp
  then have hi: "\<lfloor>p + 1 / 2\<rfloor> \<le> 100"
    by (simp only: floor_le_iff)
  have k100: "k \<le> 100"
    using hi by (simp add: k_def nat_le_iff)
  have "(of_int \<lfloor>p + 1 / 2\<rfloor> :: rat) = of_nat k"
    using lo by (simp add: k_def)
  moreover have "js_round (js_mul (js_div (Fin (of_nat n)) (Fin (of_nat t))) (Fin 100))
      = Fin (of_int \<lfloor>p + 1 / 2\<rfloor>)"
    using assms(2) by (simp add: r(1) p(1))
  ultimately show ?thesis
    using k100 by auto
qed

text \<open>
  C10, as stated, at a driver the schema accepts: counters totalDeliveries = 0 and
  onTimeDeliveries = 5 (each only has to be non-negative). One on-time delivery later
  the counters in memory are 1 and 6 and the efficiency is 600, and the save is rejected
  by the validator of efficiency. And at totalDeliveries = 2^53 the sum with 1 is
  rounded back to 2^53: the counter does not move.
\<close>

theorem updateDeliveryStats_counterexample:
  "efficiency (fst (updateDeliveryStats
      \<lparr>pastWeekHours = [8, 8, 8, 8, 8, 8, 8], efficiency = Fin 100, totalDeliveries = Fin 0,
       onTimeDeliveries = Fin 5, fatigueLevel = Normal\<rparr> True)) = Fin 600
   \<and> onTimeDeliveries (fst (updateDeliveryStats
      \<lparr>pastWeekHours = [8, 8, 8, 8, 8, 8, 8], efficiency = Fin 100, totalDeliveries = Fin 0,
       onTimeDeliveries = Fin 5, fatigueLevel = Normal\<rparr> True)) = Fin 6
   \<and> totalDeliveries (fst (updateDeliveryStats
      \<lparr>pastWeekHours = [8, 8, 8, 8, 8, 8, 8], efficiency = Fin 100, totalDeliveries = Fin 0,
       onTimeDeliveries = Fin 5, fatigueLevel = Normal\<rparr> True)) = Fin 1
   \<and> snd (updateDeliveryStats
      \<lparr>pastWeekHours = [8, 8, 8, 8, 8, 8, 8], efficiency = Fin 100, totalDeliveries = Fin 0,
       onTimeDeliveries = Fin 5, fatigueLevel = Normal\<rparr> True)
       = Inl (ValidationError ''Efficiency cannot exceed 100%'')
   \<and> totalDeliveries (fst (updateDeliveryStats
      \<lparr>pastWeekHours = [8, 8, 8, 8, 8, 8, 8], efficiency = Fin 100,
       totalDeliveries = Fin 9007199254740992, onTimeDeliveries = Fin 5,
       fatigueLevel = Normal\<rparr> False)) = Fin 9007199254740992"
  using to_binary64_normal [of "53" "9007199254740993"]
  by (simp add: updateDeliveryStats_fields driver_save_def pastWeekHours_validator_def
        round_half_even_def Let_def)

text \<open>
  C10, amended. For a driver whose counters are whole numbers with
  \<open>onTimeDeliveries \<le> totalDeliveries < 2^53 - 1\<close> before the call (a new driver, with
  both counters 0, is one, and so is the driver after each call from there),
  \<open>updateDeliveryStats\<close> adds 1 to totalDeliveries, adds 1 to onTimeDeliveries exactly
  when \<open>wasOnTime\<close> holds, and sets efficiency to
  \<open>round(onTimeDeliveries / totalDeliveries * 100)\<close> of the new counters, in binary64;
  the efficiency is then a whole number between 0 and 100, onTimeDeliveries is at most
  totalDeliveries, and with a valid week the save is accepted.
\<close>

theorem updateDeliveryStats_invariant:
  assumes "totalDeliveries d = Fin (of_nat t)" and "onTimeDeliveries d = Fin (of_nat n)"
    and "n \<le> t" and "t < 9007199254740991"
  shows "(let d' = fst (updateDeliveryStats d w); n' = n + (if w then 1 else 0)
     in totalDeliveries d' = Fin (of_nat (t + 1))
      \<and> onTimeDeliveries d' = Fin (of_nat n')
      \<and> n' \<le> t + 1
      \<and> efficiency d' =
          js_round (js_mul (js_div (onTimeDeliveries d') (totalDeliveries d')) (Fin 100))
      \<and> (\<exists>k::nat. k \<le> 100 \<and> efficiency d' = Fin (of_nat k))
      \<and> js_ge (efficiency d') (Fin 0)
      \<and> js_le (efficiency d') (Fin 100)
      \<and> js_le (onTimeDeliveries d') (totalDeliveries d')
      \<and> (pastWeekHours_validator (pastWeekHours d) \<longrightarrow> snd (updateDeliveryStats d w) = Inr d'))"
proof -
  define d' where "d' = fst (updateDeliveryStats d w)"
  define n' where "n' = n + (if w then 1 else 0)"
  have small_t: "t + 1 < 2 ^ 53"
    using assms(4) by simp
  have small_n: "n + 1 < 2 ^ 53"
    using assms(3,4) by simp
  have total: "totalDeliveries d' = Fin (of_nat (t + 1))"
    unfolding d'_def by (simp only: updateDeliveryStats_fields assms(1) js_add_one_nat [OF small_t])
  have ontime: "onTimeDeliveries d' = Fin (of_nat n')"
    unfolding d'_def n'_def
    by (cases w) (simp_all only: updateDeliveryStats_fields assms(2) js_add_one_nat [OF small_n]
        if_True if_False add_0_right)
  have order: "n' \<le> t + 1"
    using assms(3) by (simp add: n'_def)
  have positive: "js_gt (Fin (of_nat (t + 1))) (Fin 0)"
    by simp
  have "efficiency d' =
      (if js_gt (totalDeliveries d') (Fin 0)
       then js_round (js_mul (js_div (onTimeDeliveries d') (totalDeliveries d')) (Fin 100))
       else Fin 100)"
    unfolding d'_def by (simp only: updateDeliveryStats_fields)
  then have eff: "efficiency d' =
      js_round (js_mul (js_div (onTimeDeliveries d') (totalDeliveries d')) (Fin 100))"
    using positive by (simp only: total if_True)
  obtain k :: nat where k: "k \<le> 100"
      "js_round (js_mul (js_div (Fin (of_nat n')) (Fin (of_nat (t + 1)))) (Fin 100)) = Fin (of_nat k)"
    using percent_of_ratio [OF order, of ] by auto
  have effk: "efficiency d' = Fin (of_nat k)"
    using eff k(2) by (simp only: total ontime)
  have ge0: "js_ge (efficiency d') (Fin 0)" and le100: "js_le (efficiency d') (Fin 100)"
    using k(1) by (simp_all add: effk)
  have le: "js_le (onTimeDeliveries d') (totalDeliveries d')"
    using order by (simp only: total ontime js_le_Fin of_nat_le_iff)
  have week: "pastWeekHours d' = pastWeekHours d"
    unfolding d'_def by (simp only: updateDeliveryStats_fields)
  have saved: "snd (updateDeliveryStats d w) = Inr d'" if "pastWeekHours_validator (pastWeekHours d)"
  proof -
    have "snd (updateDeliveryStats d w) = driver_save d'"
      unfolding d'_def by (simp only: updateDeliveryStats_fields)
    also have "\<dots> = Inr d'"
      using that ge0 le100
      by (simp add: driver_save_def week total ontime del: of_nat_add)
    finally show ?thesis .
  qed
  have "totalDeliveries d' = Fin (of_nat (t + 1))
      \<and> onTimeDeliveries d' = Fin (of_nat n')
      \<and> n' \<le> t + 1
      \<and> efficiency d' =
          js_round (js_mul (js_div (onTimeDeliveries d') (totalDeliveries d')) (Fin 100))
      \<and> (\<exists>k::nat. k \<le> 100 \<and> efficiency d' = Fin (of_nat k))
      \<and> js_ge (efficiency d') (Fin 0)
      \<and> js_le (efficiency d') (Fin 100)
      \<and> js_le (onTimeDeliveries d') (totalDeliveries d')
      \<and> (pastWeekHours_validator (pastWeekHours d) \<longrightarrow> snd (updateDeliveryStats d w) = Inr d')"
    using total ontime order eff k(1) effk ge0 le100 le saved by blast
  then show ?thesis
    unfolding Let_def d'_def n'_def .
qed

theorem updateDeliveryStats_invariant_witness:
  "efficiency (fst (updateDeliveryStats
      \<lparr>pastWeekHours = [8, 8, 8, 8, 8, 8, 8], efficiency = Fin 100, totalDeliveries = Fin 2,
       onTimeDeliveries = Fin 1, fatigueLevel = Normal\<rparr> True)) = Fin 67
   \<and> efficiency (fst (updateDeliveryStats
      \<lparr>pastWeekHours = [8, 8, 8, 8, 8, 8, 8], efficiency = Fin 100, totalDeliveries = Fin 39,
       onTimeDeliveries = Fin 22, fatigueLevel = Normal\<rparr> True)) = Fin 57
   \<and> snd (updateDeliveryStats
      \<lparr>pastWeekHours = [8, 8, 8, 8, 8, 8, 8], efficiency = Fin 100, totalDeliveries = Fin 39,
       onTimeDeliveries = Fin 22, fatigueLevel = Normal\<rparr> True)
     = Inr \<lparr>pastWeekHours = [8, 8, 8, 8, 8, 8, 8], efficiency = Fin 57, totalDeliveries = Fin 40,
       onTimeDeliveries = Fin 23, fatigueLevel = Normal\<rparr>"
  using updateDeliveryStats_invariant
          [of "\<lparr>pastWeekHours = [8, 8, 8, 8, 8, 8, 8], efficiency = Fin 100, totalDeliveries = Fin 2,
                onTimeDeliveries = Fin 1, fatigueLevel = Normal\<rparr>" 2 1 True]
        updateDeliveryStats_invariant
          [of "\<lparr>pastWeekHours = [8, 8, 8, 8, 8, 8, 8], efficiency = Fin 100, totalDeliveries = Fin 39,
                onTimeDeliveries = Fin 22, fatigueLevel = Normal\<rparr>" 39 22 True]
        to_binary64_normal [of "- 1" "2 / 3"]
        to_binary64_normal [of "6" "150119987579016525 / 2251799813685248"]
        to_binary64_normal [of "- 1" "23 / 40"]
        to_binary64_normal [of "5" "64739244643450875 / 1125899906842624"]
  by (simp add: updateDeliveryStats_def driver_save_def pastWeekHours_validator_def
        round_half_even_def Let_def)

section \<open>Statistics of a run\<close>

lemma pre_save_efficiencyScore:
  "efficiencyScore (pre_save modified s) =
     (if modified \<and> js_gt (totalOrders s) (Fin 0)
      then js_round (js_mul (js_div (onTimeCount s) (totalOrders s)) (Fin 100))
      else efficiencyScore s)"
  by (simp add: pre_save_def Let_def)

lemma pre_save_driverUtilization:
  "driverUtilization (pre_save modified s) =
     (if modified \<and> \<not> truthy_opt (driverUtilization s) \<and> truthy (availableDrivers s)
      then Some (js_min (Fin 100)
             (js_round (js_mul (js_div (totalOrders s) (availableDrivers s)) (Fin 10))))
      else driverUtilization s)"
  by (simp add: pre_save_def Let_def)

text \<open>
  C5, as stated, at a run with no orders whose stored efficiencyScore is 50: the hook
  leaves 50 there.
\<close>

theorem pre_save_efficiencyScore_counterexample:
  "efficiencyScore (pre_save True
      \<lparr>availableDrivers = Fin 5, totalProfit = Fin 0, efficiencyScore = Fin 50, onTimeCount = Fin 0,
       lateCount = Fin 0, totalOrders = Fin 0, fuelCostBreakdown_total = Fin 0, penalties = Fin 0,
       driverUtilization = None\<rparr>) = Fin 50
   \<and> efficiencyScore (pre_save True
      \<lparr>availableDrivers = Fin 5, totalProfit = Fin 0, efficiencyScore = Fin 50, onTimeCount = Fin 0,
       lateCount = Fin 0, totalOrders = Fin 0, fuelCostBreakdown_total = Fin 0, penalties = Fin 0,
       driverUtilization = None\<rparr>) \<noteq> Fin 0"
  by (simp add: pre_save_efficiencyScore)

text \<open>
  C5, amended. When a run is saved with modified results and totalOrders > 0, the hook
  sets efficiencyScore to \<open>round(onTimeCount / totalOrders * 100)\<close>, in binary64. When
  totalOrders is 0 (or anything not above 0), or the results are not modified, it
  performs no division and leaves efficiencyScore as stored.
\<close>

theorem pre_save_efficiencyScore_guarded:
  "(modified \<and> js_gt (totalOrders s) (Fin 0) \<longrightarrow>
      efficiencyScore (pre_save modified s)
        = js_round (js_mul (js_div (onTimeCount s) (totalOrders s)) (Fin 100)))
   \<and> (totalOrders s = Fin 0 \<longrightarrow> efficiencyScore (pre_save modified s) = efficiencyScore s)
   \<and> (\<not> js_gt (totalOrders s) (Fin 0) \<or> \<not> modified \<longrightarrow>
      efficiencyScore (pre_save modified s) = efficiencyScore s)"
  by (simp add: pre_save_efficiencyScore)

theorem pre_save_efficiencyScore_guarded_witness:
  "efficiencyScore (pre_save True
      \<lparr>availableDrivers = Fin 5, totalProfit = Fin 0, efficiencyScore = Fin 50, onTimeCount = Fin 2,
       lateCount = Fin 1, totalOrders = Fin 3, fuelCostBreakdown_total = Fin 0, penalties = Fin 0,
       driverUtilization = None\<rparr>) = Fin 67
   \<and> efficiencyScore (pre_save True
      \<lparr>availableDrivers = Fin 5, totalProfit = Fin 0, efficiencyScore = Fin 50, onTimeCount = Fin 23,
       lateCount = Fin 17, totalOrders = Fin 40, fuelCostBreakdown_total = Fin 0, penalties = Fin 0,
       driverUtilization = None\<rparr>) = Fin 57
   \<and> efficiencyScore (pre_save True
      \<lparr>availableDrivers = Fin 5, totalProfit = Fin 0, efficiencyScore = Fin 0, onTimeCount = Fin 0,
       lateCount = Fin 0, totalOrders = Fin 0, fuelCostBreakdown_total = Fin 0, penalties = Fin 0,
       driverUtilization = None\<rparr>) = Fin 0"
  using pre_save_efficiencyScore_guarded
          [of True "\<lparr>availableDrivers = Fin 5, totalProfit = Fin 0, efficiencyScore = Fin 50,
                onTimeCount = Fin 2, lateCount = Fin 1, totalOrders = Fin 3,
                fuelCostBreakdown_total = Fin 0, penalties = Fin 0, driverUtilization = None\<rparr>"]
        pre_save_efficiencyScore_guarded
          [of True "\<lparr>availableDrivers = Fin 5, totalProfit = Fin 0, efficiencyScore = Fin 50,
                onTimeCount = Fin 23, lateCount = Fin 17, totalOrders = Fin 40,
                fuelCostBreakdown_total = Fin 0, penalties = Fin 0, driverUtilization = None\<rparr>"]
        pre_save_efficiencyScore_guarded
          [of True "\<lparr>availableDrivers = Fin 5, totalProfit = Fin 0, efficiencyScore = Fin 0,
                onTimeCount = Fin 0, lateCount = Fin 0, totalOrders = Fin 0,
                fuelCostBreakdown_total = Fin 0, penalties = Fin 0, driverUtilization = None\<rparr>"]
        to_binary64_normal [of "- 1" "2 / 3"]
        to_binary64_normal [of "6" "150119987579016525 / 2251799813685248"]
        to_binary64_normal [of "- 1" "23 / 40"]
        to_binary64_normal [of "5" "64739244643450875 / 1125899906842624"]
  by (simp add: round_half_even_def Let_def)

text \<open>
  C6, as stated, at a run saved once with 10 orders for 5 drivers (utilization 20) and
  saved again after totalOrders became 30: the stored 20 stays, where the formula gives
  60.
\<close>

theorem pre_save_driverUtilization_counterexample:
  "driverUtilization (pre_save True
      \<lparr>availableDrivers = Fin 5, totalProfit = Fin 0, efficiencyScore = Fin 0, onTimeCount = Fin 0,
       lateCount = Fin 0, totalOrders = Fin 10, fuelCostBreakdown_total = Fin 0, penalties = Fin 0,
       driverUtilization = None\<rparr>) = Some (Fin 20)
   \<and> driverUtilization (pre_save True
      \<lparr>availableDrivers = Fin 5, totalProfit = Fin 0, efficiencyScore = Fin 0, onTimeCount = Fin 0,
       lateCount = Fin 0, totalOrders = Fin 30, fuelCostBreakdown_total = Fin 0, penalties = Fin 0,
       driverUtilization = Some (Fin 20)\<rparr>) = Some (Fin 20)
   \<and> js_min (Fin 100) (js_round (js_mul (js_div (Fin 30) (Fin 5)) (Fin 10))) = Fin 60
   \<and> driverUtilization (pre_save True
      \<lparr>availableDrivers = Fin 5, totalProfit = Fin 0, efficiencyScore = Fin 0, onTimeCount = Fin 0,
       lateCount = Fin 0, totalOrders = Fin 30, fuelCostBreakdown_total = Fin 0, penalties = Fin 0,
       driverUtilization = Some (Fin 20)\<rparr>)
     \<noteq> Some (js_min (Fin 100) (js_round (js_mul (js_div (Fin 30) (Fin 5)) (Fin 10))))"
  by (simp add: pre_save_driverUtilization js_min_def)

text \<open>
  C6, amended. When a run is saved with modified results, driverUtilization absent or 0
  and availableDrivers not 0, the hook sets driverUtilization to
  \<open>min(100, round((totalOrders / availableDrivers) * 10))\<close>, which is at most 100. A
  driverUtilization already stored and not 0 is left as it is, also when totalOrders or
  availableDrivers changed. (NaN counts as 0 in both tests, and the value set is NaN when
  the quotient is.)
\<close>

theorem pre_save_driverUtilization_guarded:
  "(modified
      \<and> (driverUtilization s = None \<or> driverUtilization s = Some (Fin 0)
         \<or> driverUtilization s = Some NaN)
      \<and> availableDrivers s \<noteq> Fin 0 \<and> availableDrivers s \<noteq> NaN \<longrightarrow>
      driverUtilization (pre_save modified s)
        = Some (js_min (Fin 100)
            (js_round (js_mul (js_div (totalOrders s) (availableDrivers s)) (Fin 10))))
      \<and> (the (driverUtilization (pre_save modified s)) = NaN
         \<or> js_le (the (driverUtilization (pre_save modified s))) (Fin 100)))
   \<and> (driverUtilization s = Some u \<and> u \<noteq> Fin 0 \<and> u \<noteq> NaN \<longrightarrow>
      driverUtilization (pre_save modified s) = Some u)
   \<and> (\<not> modified \<or> availableDrivers s = Fin 0 \<or> availableDrivers s = NaN \<longrightarrow>
      driverUtilization (pre_save modified s) = driverUtilization s)"
  using js_min_100 [of "js_round (js_mul (js_div (totalOrders s) (availableDrivers s)) (Fin 10))"]
  by (auto simp add: pre_save_driverUtilization truthy_iff truthy_opt_iff)

theorem pre_save_driverUtilization_guarded_witness:
  "driverUtilization (pre_save True
      \<lparr>availableDrivers = Fin 5, totalProfit = Fin 0, efficiencyScore = Fin 0, onTimeCount = Fin 0,
       lateCount = Fin 0, totalOrders = Fin 10, fuelCostBreakdown_total = Fin 0, penalties = Fin 0,
       driverUtilization = None\<rparr>) = Some (Fin 20)
   \<and> driverUtilization (pre_save True
      \<lparr>availableDrivers = Fin 2, totalProfit = Fin 0, efficiencyScore = Fin 0, onTimeCount = Fin 0,
       lateCount = Fin 0, totalOrders = Fin 50, fuelCostBreakdown_total = Fin 0, penalties = Fin 0,
       driverUtilization = Some (Fin 0)\<rparr>) = Some (Fin 100)
   \<and> driverUtilization (pre_save True
      \<lparr>availableDrivers = Fin 5, totalProfit = Fin 0, efficiencyScore = Fin 0, onTimeCount = Fin 0,
       lateCount = Fin 0, totalOrders = Fin 30, fuelCostBreakdown_total = Fin 0, penalties = Fin 0,
       driverUtilization = Some (Fin 20)\<rparr>) = Some (Fin 20)"
  using pre_save_driverUtilization_guarded
          [of True "\<lparr>availableDrivers = Fin 5, totalProfit = Fin 0, efficiencyScore = Fin 0,
                onTimeCount = Fin 0, lateCount = Fin 0, totalOrders = Fin 10,
                fuelCostBreakdown_total = Fin 0, penalties = Fin 0, driverUtilization = None\<rparr>" "Fin 20"]
        pre_save_driverUtilization_guarded
          [of True "\<lparr>availableDrivers = Fin 2, totalProfit = Fin 0, efficiencyScore = Fin 0,
                onTimeCount = Fin 0, lateCount = Fin 0, totalOrders = Fin 50,
                fuelCostBreakdown_total = Fin 0, penalties = Fin 0,
                driverUtilization = Some (Fin 0)\<rparr>" "Fin 20"]
        pre_save_driverUtilization_guarded
          [of True "\<lparr>availableDrivers = Fin 5, totalProfit = Fin 0, efficiencyScore = Fin 0,
                onTimeCount = Fin 0, lateCount = Fin 0, totalOrders = Fin 30,
                fuelCostBreakdown_total = Fin 0, penalties = Fin 0,
                driverUtilization = Some (Fin 20)\<rparr>" "Fin 20"]
  by (simp add: js_min_def)

text \<open>
  C7, as stated, at a run with totalProfit 101.14, fuel costs 52 and no penalties:
  \<open>calculateROI\<close> gives 194, because the sum \<open>101.14 + 52\<close> is rounded and the
  difference with 52 is no longer 101.14, while
  \<open>round(totalProfit / totalCosts * 100)\<close> is 195.
\<close>

theorem calculateROI_counterexample:
  "calculateROI \<lparr>availableDrivers = Fin 5, totalProfit = to_binary64 (10114 / 100),
       efficiencyScore = Fin 50, onTimeCount = Fin 1, lateCount = Fin 1, totalOrders = Fin 2,
       fuelCostBreakdown_total = Fin 52, penalties = Fin 0, driverUtilization = None\<rparr> = Fin 194
   \<and> js_round (js_mul (js_div (to_binary64 (10114 / 100)) (js_add (Fin 52) (Fin 0))) (Fin 100))
       = Fin 195"
  using to_binary64_normal [of "6" "5057 / 50"]
        to_binary64_normal [of "7" "10776269483367465 / 70368744177664"]
        to_binary64_normal [of "6" "889636848266117 / 8796093022208"]
        to_binary64_normal [of "0" "889636848266117 / 457396837154816"]
        to_binary64_normal [of "7" "109493765940445175 / 562949953421312"]
        to_binary64_normal [of "0" "7117094786128937 / 3659174697238528"]
        to_binary64_normal [of "7" "218987531880890375 / 1125899906842624"]
  by (simp add: calculateROI_def js_sub_def round_half_even_def Let_def)

text \<open>
  C7, amended. With totalCosts = fuelCostBreakdown.total + penalties and totalRevenue =
  totalProfit + totalCosts, \<open>calculateROI\<close> is
  \<open>round(((totalRevenue - totalCosts) / totalCosts) * 100)\<close>, in binary64, when
  totalCosts > 0, and 0 when totalCosts is 0 (or anything not above 0), where the
  quotient itself would not be a finite number. It equals
  \<open>round(totalProfit / totalCosts * 100)\<close> when the difference
  \<open>totalRevenue - totalCosts\<close> gives totalProfit back.
\<close>

theorem calculateROI_spec:
  "(let totalCosts = js_add (fuelCostBreakdown_total s) (penalties s);
        totalRevenue = js_add (totalProfit s) totalCosts
    in (js_gt totalCosts (Fin 0) \<longrightarrow>
          calculateROI s
            = js_round (js_mul (js_div (js_sub totalRevenue totalCosts) totalCosts) (Fin 100)))
       \<and> (js_gt totalCosts (Fin 0) \<and> js_sub totalRevenue totalCosts = totalProfit s \<longrightarrow>
          calculateROI s = js_round (js_mul (js_div (totalProfit s) totalCosts) (Fin 100)))
       \<and> (\<not> js_gt totalCosts (Fin 0) \<longrightarrow> calculateROI s = Fin 0)
       \<and> (totalCosts = Fin 0 \<longrightarrow>
          calculateROI s = Fin 0
          \<and> js_round (js_mul (js_div (js_sub totalRevenue totalCosts) totalCosts) (Fin 100))
              \<noteq> Fin 0))"
proof -
  have "js_round (js_mul (js_div x (Fin 0)) (Fin 100)) \<noteq> Fin 0" for x
    by (rule js_round_not_finite, rule allI, rule js_mul_not_finite, rule allI,
        rule js_div_zero_not_finite)
  then show ?thesis
    by (auto simp add: calculateROI_def Let_def)
qed

theorem calculateROI_spec_witness:
  "calculateROI \<lparr>availableDrivers = Fin 5, totalProfit = Fin 1630, efficiencyScore = Fin 50,
       onTimeCount = Fin 1, lateCount = Fin 1, totalOrders = Fin 2,
       fuelCostBreakdown_total = Fin 140, penalties = Fin 50, driverUtilization = None\<rparr> = Fin 858
   \<and> calculateROI \<lparr>availableDrivers = Fin 5, totalProfit = Fin 69, efficiencyScore = Fin 50,
       onTimeCount = Fin 1, lateCount = Fin 1, totalOrders = Fin 2,
       fuelCostBreakdown_total = Fin 70, penalties = Fin 50, driverUtilization = None\<rparr> = Fin 57
   \<and> calculateROI \<lparr>availableDrivers = Fin 5, totalProfit = Fin 1630, efficiencyScore = Fin 50,
       onTimeCount = Fin 1, lateCount = Fin 1, totalOrders = Fin 2,
       fuelCostBreakdown_total = Fin 0, penalties = Fin 0, driverUtilization = None\<rparr> = Fin 0
   \<and> js_round (js_mul (js_div (js_sub (js_add (Fin 1630) (Fin 0)) (Fin 0)) (Fin 0)) (Fin 100)) = PInf"
  using calculateROI_spec
          [of "\<lparr>availableDrivers = Fin 5, totalProfit = Fin 1630, efficiencyScore = Fin 50,
                onTimeCount = Fin 1, lateCount = Fin 1, totalOrders = Fin 2,
                fuelCostBreakdown_total = Fin 140, penalties = Fin 50, driverUtilization = None\<rparr>"]
        calculateROI_spec
          [of "\<lparr>availableDrivers = Fin 5, totalProfit = Fin 69, efficiencyScore = Fin 50,
                onTimeCount = Fin 1, lateCount = Fin 1, totalOrders = Fin 2,
                fuelCostBreakdown_total = Fin 70, penalties = Fin 50, driverUtilization = None\<rparr>"]
        calculateROI_spec
          [of "\<lparr>availableDrivers = Fin 5, totalProfit = Fin 1630, efficiencyScore = Fin 50,
                onTimeCount = Fin 1, lateCount = Fin 1, totalOrders = Fin 2,
                fuelCostBreakdown_total = Fin 0, penalties = Fin 0, driverUtilization = None\<rparr>"]
        to_binary64_normal [of "3" "163 / 19"]
        to_binary64_normal [of "9" "120737950536412975 / 140737488355328"]
        to_binary64_normal [of "- 1" "23 / 40"]
        to_binary64_normal [of "5" "64739244643450875 / 1125899906842624"]
  by (simp add: Let_def js_sub_def round_half_even_def)

section \<open>Validation of time strings\<close>

lemma time_rx_shapes:
  "rx_test_anchored time_rx s \<longleftrightarrow> spec_HH_MM s \<or> short_H_MM s"
  by (cases s rule: spec_HH_MM.cases)
     (auto simp add: rx_test_anchored_def time_rx_def digit_upto_def minutes_00_59_def
        hours_00_23_def)

text \<open>
  C8, as stated, at the string \<open>9:30\<close>: its hour has one digit, so it is not of the
  shape HH:MM, and both fields accept it.
\<close>

theorem validate_time_counterexample:
  "validate_deliveryTime ''9:30'' = Inr ''9:30''
   \<and> validate_routeStartTime ''9:30'' = Inr ''9:30''
   \<and> \<not> spec_HH_MM ''9:30''"
  by (simp add: validate_deliveryTime_def validate_routeStartTime_def rx_test_anchored_def
        time_rx_def)

text \<open>
  C8, amended. A string given as an order's deliveryTime or a run's routeStartTime is
  accepted exactly when it is two digits of hours from 00 to 23, or one digit of hours
  from 0 to 9, followed by a colon and two digits of minutes from 00 to 59; any other
  string is rejected with a validation error.
\<close>

theorem validate_time_shapes:
  "(validate_deliveryTime s = Inr s \<longleftrightarrow> spec_HH_MM s \<or> short_H_MM s)
   \<and> ((\<exists>e. validate_deliveryTime s = Inl (ValidationError e)) \<longleftrightarrow> \<not> (spec_HH_MM s \<or> short_H_MM s))
   \<and> (validate_routeStartTime s = Inr s \<longleftrightarrow> spec_HH_MM s \<or> short_H_MM s)
   \<and> ((\<exists>e. validate_routeStartTime s = Inl (ValidationError e)) \<longleftrightarrow> \<not> (spec_HH_MM s \<or> short_H_MM s))"
proof (cases "s = []")
  case True
  then show ?thesis
    by (simp add: validate_deliveryTime_def validate_routeStartTime_def)
next
  case False
  then show ?thesis
    by (simp add: validate_deliveryTime_def validate_routeStartTime_def time_rx_shapes)
qed

theorem validate_time_shapes_witness:
  "validate_deliveryTime ''23:59'' = Inr ''23:59''
   \<and> validate_routeStartTime ''7:05'' = Inr ''7:05''
   \<and> (\<exists>e. validate_deliveryTime ''24:00'' = Inl (ValidationError e))
   \<and> (\<exists>e. validate_routeStartTime ''12:60'' = Inl (ValidationError e))"
  using validate_time_shapes [of "''23:59''"] validate_time_shapes [of "''7:05''"]
        validate_time_shapes [of "''24:00''"] validate_time_shapes [of "''12:60''"]
  by (simp add: digit_upto_def minutes_00_59_def hours_00_23_def)

end
